theory Spec2Isabelle
  imports Main
begin

section \<open>LyricLens client: data model\<close>

text \<open>
  The interfaces of the client's type declarations. An optional field (\<open>album?: string\<close>)
  is a \<open>string option\<close>, \<open>None\<close> standing for an absent field. The record
  \<open>ISong\<close> reuses the field names \<open>title\<close> and \<open>artist\<close>; the fields of a suggestion are
  written with their qualified names (\<open>ISuggestionItem.title\<close>). The field \<open>id\<close> of a song
  is \<open>id'\<close> here, since \<open>id\<close> is HOL's identity function.
\<close>

record ISuggestionItem =
  title :: string
  artist :: string
  album :: "string option"
  preview_url :: "string option"
  cover_url :: "string option"

record ISong =
  id' :: string
  title :: string
  artist :: string
  coverUrl :: "string option"

record ILyricsAnalysis =
  summary :: string
  countries_mentioned :: "string list"

section \<open>JavaScript values the hook inspects\<close>

text \<open>
  A value caught by \<open>catch (err)\<close>: an instance of \<open>Error\<close> with its message, or any
  other thrown value. The handlers only ask \<open>err instanceof Error\<close> and read
  \<open>err.message\<close>.
\<close>

datatype thrown = Error (message: string) | NonError

text \<open>
  What one \<open>fetch\<close> call settles to. \<open>Rejected e\<close>: the promise of \<open>fetch\<close> rejects
  (network or transport failure). \<open>Response ok statusText json\<close>: a response arrived;
  \<open>json\<close> is what \<open>await response.json()\<close> gives, \<open>Inl e\<close> when it rejects (the body
  is not JSON) and \<open>Inr d\<close> when it parses to the data \<open>d\<close>.
\<close>

datatype 'd fetch_result =
    Rejected thrown
  | Response bool string "thrown + 'd"

text \<open>
  The parsed body of a search response, as far as \<open>searchSongs\<close> looks at it.
  \<open>Null_data\<close> is the JSON value \<open>null\<close>, on which every property read throws a
  \<open>TypeError\<close>. \<open>Data s e\<close> is any other value: \<open>s\<close> is \<open>Some items\<close> when
  \<open>data.suggestions\<close> is an array and \<open>None\<close> when the field is absent or is not an
  array; \<open>e\<close> is \<open>data.error\<close>, a string or absent. The body \<open>{}\<close> is \<open>Data None None\<close>.
  An element of the array is \<open>Some item\<close>, an object typed \<open>ISuggestionItem\<close> as the
  callback of \<open>map\<close> declares it, or \<open>None\<close>, the JSON value \<open>null\<close>: nothing checks the
  elements at run time, and \<open>null\<close> is the element on which the callback throws. The body
  \<open>{"suggestions": [null]}\<close> is \<open>Data (Some [None]) None\<close>.
\<close>

datatype search_data =
    Null_data
  | Data (suggestions: "ISuggestionItem option list option") (error_field: "string option")

text \<open>
  The parsed body of a lyrics response: \<open>null\<close>, or an object whose \<open>lyrics\<close> field is
  a string or is missing (\<open>None\<close>).
\<close>

datatype lyrics_data = Null_lyrics | Lyrics_data "string option"

text \<open>
  The parsed body of an analysis response, which \<open>analyzeLyrics\<close> stores without
  looking at it: \<open>null\<close>, an object of the declared shape, or any other JSON value.
\<close>

datatype analysis_data = No_analysis | Analysis ILyricsAnalysis | Unexpected_shape

text \<open>
  Truthiness of a value that is a string, \<open>null\<close> or \<open>undefined\<close>: only a non-empty
  string is truthy.
\<close>

definition truthy :: "string option \<Rightarrow> bool" where
  "truthy v = (case v of None \<Rightarrow> False | Some s \<Rightarrow> s \<noteq> [])"

text \<open>
  The message of the \<open>TypeError\<close> thrown when a property of \<open>null\<close> is read (the
  wording is the engine's; this is V8's).
\<close>

definition cannot_read :: "string \<Rightarrow> string" where
  "cannot_read p = ''Cannot read properties of null (reading '' @ [CHR 0x27] @ p @ [CHR 0x27] @ '')''"

text \<open>
  \<open>err instanceof Error ? err.message : fallback\<close>, the expression of every
  \<open>catch\<close> block of the hook.
\<close>

definition caught :: "string \<Rightarrow> thrown \<Rightarrow> string" where
  "caught fallback err = (case err of Error m \<Rightarrow> m | NonError \<Rightarrow> fallback)"

text \<open>
  The requests the client sends, by endpoint and parameters (the URL encoding of the
  parameters is left out).
\<close>

datatype request =
    Search_request string
  | Lyrics_request string string
  | Analyze_request string string string

section \<open>The hook \<open>useLyricLens\<close>\<close>

text \<open>The five \<open>useState\<close> cells of one instance of the hook, and their initial values.\<close>

record hook =
  songs :: "ISong list"
  lyrics :: "string option"
  lyricsAnalysis :: analysis_data
  isLoading :: bool
  error :: "string option"

definition useLyricLens :: hook where
  "useLyricLens =
     \<lparr> songs = [], lyrics = None, lyricsAnalysis = No_analysis, isLoading = False, error = None \<rparr>"

text \<open>
  Each operation is an \<open>async\<close> function with one suspension that matters: it runs up
  to the \<open>fetch\<close> call (\<open>_start\<close>, which returns the request sent and the state after
  \<open>setIsLoading(true); setError(null)\<close>), and it resumes when the request has settled
  (\<open>_settle\<close>). The body of \<open>try\<close> is \<open>_try\<close>: \<open>Inl e\<close> when it throws \<open>e\<close>, \<open>Inr h\<close>
  when it completes with the state \<open>h\<close>. No state is written before a \<open>throw\<close> (the
  callback of \<open>map\<close> throws before \<open>setSongs\<close> is called), so a thrown value carries no
  state.
\<close>

subsection \<open>\<open>searchSongs\<close>\<close>

text \<open>The object that the callback of \<open>data.suggestions.map\<close> builds from a suggestion.\<close>

definition toSong :: "ISuggestionItem \<Rightarrow> ISong" where
  "toSong song =
     \<lparr> id' = ISuggestionItem.title song @ ''-'' @ ISuggestionItem.artist song,
       title = ISuggestionItem.title song,
       artist = ISuggestionItem.artist song,
       coverUrl = cover_url song \<rparr>"

text \<open>
  The callback on an element of the array: on \<open>null\<close> its first property read,
  \<open>song.title\<close>, throws a \<open>TypeError\<close>.
\<close>

definition suggestion_callback :: "ISuggestionItem option \<Rightarrow> thrown + ISong" where
  "suggestion_callback song =
     (case song of
        None \<Rightarrow> Inl (Error (cannot_read ''title''))
      | Some s \<Rightarrow> Inr (toSong s))"

text \<open>
  \<open>Array.prototype.map\<close> with a callback that may throw: the elements are visited in
  order, and the first throw ends the call with no array built.
\<close>

fun array_map :: "('a \<Rightarrow> thrown + 'b) \<Rightarrow> 'a list \<Rightarrow> thrown + 'b list" where
  "array_map f [] = Inr []"
| "array_map f (x # xs) =
     (case f x of
        Inl e \<Rightarrow> Inl e
      | Inr y \<Rightarrow> (case array_map f xs of Inl e \<Rightarrow> Inl e | Inr ys \<Rightarrow> Inr (y # ys)))"

definition searchSongs_start :: "string \<Rightarrow> hook \<Rightarrow> request \<times> hook" where
  "searchSongs_start query h = (Search_request query, h\<lparr>isLoading := True, error := None\<rparr>)"

definition searchSongs_try :: "search_data fetch_result \<Rightarrow> hook \<Rightarrow> thrown + hook" where
  "searchSongs_try r h =
     (case r of
        Rejected e \<Rightarrow> Inl e
      | Response ok st body \<Rightarrow>
          if \<not> ok then Inl (Error (''Error: '' @ st))
          else (case body of
                  Inl e \<Rightarrow> Inl e
                | Inr Null_data \<Rightarrow> Inl (Error (cannot_read ''suggestions''))
                | Inr (Data sugg err) \<Rightarrow>
                    (case sugg of
                       Some items \<Rightarrow>
                         (case array_map suggestion_callback items of
                            Inl e \<Rightarrow> Inl e
                          | Inr ss \<Rightarrow> Inr (h\<lparr>songs := ss\<rparr>))
                     | None \<Rightarrow>
                         if truthy err then Inr (h\<lparr>songs := [], error := err\<rparr>)
                         else Inr (h\<lparr>songs := []\<rparr>))))"

definition searchSongs_settle :: "search_data fetch_result \<Rightarrow> hook \<Rightarrow> hook" where
  "searchSongs_settle r h =
     (case searchSongs_try r h of
        Inl err \<Rightarrow>
          h\<lparr>error := Some (caught ''An error occurred while searching for songs'' err),
            songs := [], isLoading := False\<rparr>
      | Inr h' \<Rightarrow> h'\<lparr>isLoading := False\<rparr>)"

subsection \<open>\<open>getLyrics\<close>\<close>

definition getLyrics_start :: "ISong \<Rightarrow> hook \<Rightarrow> request \<times> hook" where
  "getLyrics_start song h =
     (Lyrics_request (artist song) (title song), h\<lparr>isLoading := True, error := None\<rparr>)"

definition getLyrics_try :: "lyrics_data fetch_result \<Rightarrow> hook \<Rightarrow> thrown + hook" where
  "getLyrics_try r h =
     (case r of
        Rejected e \<Rightarrow> Inl e
      | Response ok st body \<Rightarrow>
          if \<not> ok then Inl (Error (''Error: '' @ st))
          else (case body of
                  Inl e \<Rightarrow> Inl e
                | Inr Null_lyrics \<Rightarrow> Inl (Error (cannot_read ''lyrics''))
                | Inr (Lyrics_data l) \<Rightarrow> Inr (h\<lparr>lyrics := l\<rparr>)))"

definition getLyrics_settle :: "lyrics_data fetch_result \<Rightarrow> hook \<Rightarrow> hook" where
  "getLyrics_settle r h =
     (case getLyrics_try r h of
        Inl err \<Rightarrow>
          h\<lparr>error := Some (caught ''An error occurred while fetching lyrics'' err),
            isLoading := False\<rparr>
      | Inr h' \<Rightarrow> h'\<lparr>isLoading := False\<rparr>)"

subsection \<open>\<open>analyzeLyrics\<close>\<close>

definition analyzeLyrics_start :: "ISong \<Rightarrow> string \<Rightarrow> hook \<Rightarrow> request \<times> hook" where
  "analyzeLyrics_start song l h =
     (Analyze_request (title song) (artist song) l, h\<lparr>isLoading := True, error := None\<rparr>)"

definition analyzeLyrics_try :: "analysis_data fetch_result \<Rightarrow> hook \<Rightarrow> thrown + hook" where
  "analyzeLyrics_try r h =
     (case r of
        Rejected e \<Rightarrow> Inl e
      | Response ok st body \<Rightarrow>
          if \<not> ok then Inl (Error (''Error: '' @ st))
          else (case body of
                  Inl e \<Rightarrow> Inl e
                | Inr d \<Rightarrow> Inr (h\<lparr>lyricsAnalysis := d\<rparr>)))"

definition analyzeLyrics_settle :: "analysis_data fetch_result \<Rightarrow> hook \<Rightarrow> hook" where
  "analyzeLyrics_settle r h =
     (case analyzeLyrics_try r h of
        Inl err \<Rightarrow>
          h\<lparr>error := Some (caught ''An error occurred while analyzing lyrics'' err),
            isLoading := False\<rparr>
      | Inr h' \<Rightarrow> h'\<lparr>isLoading := False\<rparr>)"

section \<open>The page \<open>SearchPage\<close>\<close>

text \<open>
  \<open>String.prototype.trim\<close> removes white space and line terminators from both ends.
  A \<open>char\<close> is a code unit below 256 here (a string of Latin-1 characters); of the white
  space and line terminators of ECMAScript these are TAB, LF, VT, FF, CR, the space and
  the no-break space U+00A0.
\<close>

definition js_whitespace :: "char \<Rightarrow> bool" where
  "js_whitespace c =
     (c \<in> {CHR 0x09, CHR 0x0A, CHR 0x0B, CHR 0x0C, CHR 0x0D, CHR 0x20, CHR 0xA0})"

definition trim :: "string \<Rightarrow> string" where
  "trim s = rev (dropWhile js_whitespace (rev (dropWhile js_whitespace s)))"

text \<open>
  The state of the page: its two \<open>useState\<close> cells and its own instance of the hook
  (\<open>search_hook\<close>), of which it reads \<open>songs\<close>, \<open>isLoading\<close> and \<open>error\<close>.
\<close>

record page =
  query :: string
  selectedSong :: "ISong option"
  search_hook :: hook

definition initial_page :: page where
  "initial_page = \<lparr> query = [], selectedSong = None, search_hook = useLyricLens \<rparr>"

text \<open>
  \<open>handleSearch\<close> up to its \<open>await\<close>: the request it sends, if any, and the state it
  leaves. \<open>!searchQuery.trim()\<close> holds when the trimmed string is empty.
\<close>

definition handleSearch_start :: "string \<Rightarrow> page \<Rightarrow> request option \<times> page" where
  "handleSearch_start searchQuery p =
     (let p1 = p\<lparr>query := searchQuery\<rparr> in
      if trim searchQuery = [] then (None, p1)
      else (case searchSongs_start searchQuery (search_hook p1) of
              (req, h) \<Rightarrow> (Some req, p1\<lparr>selectedSong := None, search_hook := h\<rparr>)))"

text \<open>The rest of \<open>handleSearch\<close>: the awaited \<open>searchSongs\<close> resumes on the settled request.\<close>

definition handleSearch_settle :: "search_data fetch_result \<Rightarrow> page \<Rightarrow> page" where
  "handleSearch_settle r p = p\<lparr>search_hook := searchSongs_settle r (search_hook p)\<rparr>"

definition handleSongClick :: "ISong \<Rightarrow> page \<Rightarrow> page" where
  "handleSongClick song p = p\<lparr>selectedSong := Some song\<rparr>"

text \<open>The \<open>onBack\<close> callback the page hands to \<open>Lyrics\<close>.\<close>

definition onBack :: "page \<Rightarrow> page" where
  "onBack p = p\<lparr>selectedSong := None\<rparr>"

subsection \<open>What the page renders\<close>

text \<open>
  The rendered tree, flattened to the nodes that carry content. \<open>Song_card s\<close> is one
  \<open>SongCard\<close> of the grid, whose click hands \<open>s\<close> to \<open>handleSongClick\<close>.
\<close>

datatype node =
    Page_title
  | Search_input
  | Searching
  | Error_text string
  | Results_heading string
  | Lyrics_panel ISong
  | Skeleton_grid
  | Empty_message string
  | Song_card ISong

definition SearchStatus :: "bool \<Rightarrow> string option \<Rightarrow> node list" where
  "SearchStatus loading err =
     (if \<not> loading \<and> \<not> truthy err then []
      else (if loading then [Searching] else []) @
           (case err of None \<Rightarrow> [] | Some m \<Rightarrow> if m \<noteq> [] then [Error_text m] else []))"

definition SongGrid :: "ISong list \<Rightarrow> bool \<Rightarrow> string \<Rightarrow> node list" where
  "SongGrid ss loading emptyMessage =
     (if loading then [Skeleton_grid]
      else if length ss = 0 then [Empty_message emptyMessage]
      else map Song_card ss)"

definition results_heading :: "page \<Rightarrow> string" where
  "results_heading p =
     (if length (songs (search_hook p)) > 0
      then ''Results for '' @ [CHR 0x22] @ query p @ [CHR 0x22]
      else ''No results found for '' @ [CHR 0x22] @ query p @ [CHR 0x22])"

definition SearchPage :: "page \<Rightarrow> node list" where
  "SearchPage p =
     [Page_title, Search_input] @
     SearchStatus (isLoading (search_hook p)) (error (search_hook p)) @
     (if query p \<noteq> [] \<and> \<not> isLoading (search_hook p) \<and> \<not> truthy (error (search_hook p))
         \<and> selectedSong p = None
      then [Results_heading (results_heading p)] else []) @
     (case selectedSong p of Some s \<Rightarrow> [Lyrics_panel s] | None \<Rightarrow> []) @
     (case selectedSong p of
        None \<Rightarrow> SongGrid (songs (search_hook p)) (isLoading (search_hook p))
                  ''No songs found. Try another search term.''
      | Some s \<Rightarrow> [])"

subsection \<open>The view state\<close>

datatype view_state = browsing | viewingSong

definition view_of :: "page \<Rightarrow> view_state" where
  "view_of p = (case selectedSong p of None \<Rightarrow> browsing | Some s \<Rightarrow> viewingSong)"

section \<open>The component \<open>Lyrics\<close>\<close>

text \<open>
  One mounted instance of \<open>Lyrics\<close>: its prop \<open>song\<close>, its own instance of the hook, its
  two loading flags, and the requests it has sent so far, oldest first (\<open>sent\<close> is the
  only part that is not a cell of the component). The page mounts a new instance each time
  \<open>selectedSong\<close> turns from \<open>null\<close> to a song: the grid is rendered only while
  \<open>selectedSong\<close> is \<open>null\<close>, so the prop never changes during an instance's life.
\<close>

record lyrics_component =
  song :: ISong
  lyrics_hook :: hook
  isLyricsLoading :: bool
  isAnalysisLoading :: bool
  sent :: "request list"

text \<open>
  The first effect (dependency \<open>song\<close>) up to its \<open>await\<close>; \<open>if (song)\<close> holds for every
  object.
\<close>

definition fetchLyrics :: "lyrics_component \<Rightarrow> lyrics_component" where
  "fetchLyrics c =
     (case getLyrics_start (song c) (lyrics_hook c) of
        (req, h) \<Rightarrow> c\<lparr>isLyricsLoading := True, lyrics_hook := h, sent := sent c @ [req]\<rparr>)"

text \<open>The second effect (dependency \<open>lyrics\<close>) up to its \<open>await\<close>; \<open>if (lyrics)\<close> is truthiness.\<close>

definition fetchAnalysis :: "lyrics_component \<Rightarrow> lyrics_component" where
  "fetchAnalysis c =
     (case lyrics (lyrics_hook c) of
        None \<Rightarrow> c
      | Some l \<Rightarrow>
          if l \<noteq> [] then
            (case analyzeLyrics_start (song c) l (lyrics_hook c) of
               (req, h) \<Rightarrow> c\<lparr>isAnalysisLoading := True, lyrics_hook := h, sent := sent c @ [req]\<rparr>)
          else c)"

text \<open>Mounting runs both effects after the first render, in the order they are declared.\<close>

definition mount :: "ISong \<Rightarrow> lyrics_component" where
  "mount s =
     fetchAnalysis (fetchLyrics
       \<lparr> song = s, lyrics_hook = useLyricLens, isLyricsLoading = False,
         isAnalysisLoading = False, sent = [] \<rparr>)"

text \<open>
  The lyrics request settles: \<open>getLyrics\<close> resumes, then \<open>fetchLyrics\<close> clears its flag,
  and after the render that follows the second effect runs again if \<open>lyrics\<close> has
  changed. (A change of \<open>lyrics\<close> from \<open>null\<close> to \<open>undefined\<close> also reruns the effect,
  which then does nothing: both are \<open>None\<close> here.)
\<close>

definition lyrics_settled :: "lyrics_data fetch_result \<Rightarrow> lyrics_component \<Rightarrow> lyrics_component" where
  "lyrics_settled r c =
     (let c1 = c\<lparr>lyrics_hook := getLyrics_settle r (lyrics_hook c), isLyricsLoading := False\<rparr> in
      if lyrics (lyrics_hook c1) \<noteq> lyrics (lyrics_hook c) then fetchAnalysis c1 else c1)"

text \<open>The analysis request settles: \<open>analyzeLyrics\<close> resumes, then \<open>fetchAnalysis\<close> clears its flag.\<close>

definition analysis_settled :: "analysis_data fetch_result \<Rightarrow> lyrics_component \<Rightarrow> lyrics_component" where
  "analysis_settled r c =
     c\<lparr>lyrics_hook := analyzeLyrics_settle r (lyrics_hook c), isAnalysisLoading := False\<rparr>"

text \<open>
  What can happen to a mounted instance: one of its requests settles. A request is in
  flight exactly while its flag is set (\<open>setIsLyricsLoading(true)\<close> before the
  \<open>await\<close>, \<open>false\<close> after it), so an event with no request in flight cannot be
  delivered (\<open>None\<close>).
\<close>

datatype event =
    Lyrics_settled "lyrics_data fetch_result"
  | Analysis_settled "analysis_data fetch_result"

fun deliver :: "event \<Rightarrow> lyrics_component \<Rightarrow> lyrics_component option" where
  "deliver (Lyrics_settled r) c = (if isLyricsLoading c then Some (lyrics_settled r c) else None)"
| "deliver (Analysis_settled r) c = (if isAnalysisLoading c then Some (analysis_settled r c) else None)"

fun run :: "event list \<Rightarrow> lyrics_component \<Rightarrow> lyrics_component option" where
  "run [] c = Some c"
| "run (e # es) c = (case deliver e c of None \<Rightarrow> None | Some c' \<Rightarrow> run es c')"

fun is_lyrics_request :: "request \<Rightarrow> bool" where
  "is_lyrics_request (Lyrics_request a t) = True"
| "is_lyrics_request r = False"

fun is_analyze_request :: "request \<Rightarrow> bool" where
  "is_analyze_request (Analyze_request t a l) = True"
| "is_analyze_request r = False"

text \<open>
  What holds of a mounted instance at every moment: it has sent its lyrics request, and
  after it an analysis request exactly when \<open>lyrics\<close> is truthy; while the lyrics request
  is in flight \<open>lyrics\<close> is still \<open>null\<close>.
\<close>

definition lyrics_inv :: "lyrics_component \<Rightarrow> bool" where
  "lyrics_inv c =
     (sent c =
        Lyrics_request (artist (song c)) (title (song c)) #
        (case lyrics (lyrics_hook c) of
           None \<Rightarrow> []
         | Some l \<Rightarrow> if l \<noteq> [] then [Analyze_request (title (song c)) (artist (song c)) l] else [])
      \<and> (isLyricsLoading c \<longrightarrow> lyrics (lyrics_hook c) = None))"

text \<open>A fetch that fails: the request is rejected, or the response is not 2xx.\<close>

fun fetch_failed :: "'d fetch_result \<Rightarrow> bool" where
  "fetch_failed (Rejected e) = True"
| "fetch_failed (Response ok st body) = (\<not> ok)"

text \<open>
  The suggestions array that a search response carries: the response is 2xx, its body
  parses, and \<open>data.suggestions\<close> is an array. Every other outcome has none.
\<close>

fun suggestions_of :: "search_data fetch_result \<Rightarrow> ISuggestionItem option list option" where
  "suggestions_of (Response ok st (Inr (Data sugg err))) = (if ok then sugg else None)"
| "suggestions_of r = None"

section \<open>The analyze endpoint of the backend\<close>

text \<open>
  Modelled from the spec: the handler of \<open>POST /api/song/analyze\<close> and the cache behind
  it. The backend's code is not among the source files, of which only the caller
  \<open>analyzeLyrics\<close> is; the definitions below follow section 4.1 and the cache entry of
  section 3. The cache is keyed by \<open>(track_name, artist_name)\<close> and every entry expires
  at a time fixed when it is stored; the length of the TTL is a parameter. The AI
  collaborator is a parameter as well: \<open>ai n l\<close> is what its invocation number \<open>n\<close>
  answers on the lyrics \<open>l\<close>, so two invocations on the same lyrics may differ.
\<close>

text \<open>
  Modelled from the spec: the body \<open>{track_name, artist_name, lyrics}\<close> of a request
  (\<open>lyrics'\<close> here, \<open>lyrics\<close> being the cell of the hook).
\<close>

record analyze_body =
  track_name :: string
  artist_name :: string
  lyrics' :: string

type_synonym cache_key = "string \<times> string"

text \<open>
  Modelled from the spec: a cache entry is the stored analysis and the time at which it
  expires; the server is its cache and the number of times it has invoked the AI
  collaborator.
\<close>

type_synonym analysis_cache = "cache_key \<Rightarrow> (ILyricsAnalysis \<times> nat) option"

record server =
  cache :: analysis_cache
  ai_calls :: nat

text \<open>Modelled from the spec: the cache key of a request, its track and artist.\<close>

definition cache_key :: "analyze_body \<Rightarrow> cache_key" where
  "cache_key req = (track_name req, artist_name req)"

text \<open>Modelled from the spec: a read of the cache at time \<open>now\<close>; an expired entry is gone.\<close>

definition cache_get :: "analysis_cache \<Rightarrow> nat \<Rightarrow> cache_key \<Rightarrow> ILyricsAnalysis option" where
  "cache_get c now k =
     (case c k of
        None \<Rightarrow> None
      | Some (a, expires) \<Rightarrow> if now < expires then Some a else None)"

text \<open>Modelled from the spec: a write of the cache at time \<open>now\<close>, with the TTL \<open>ttl\<close>.\<close>

definition cache_set :: "analysis_cache \<Rightarrow> nat \<Rightarrow> nat \<Rightarrow> cache_key \<Rightarrow> ILyricsAnalysis \<Rightarrow> analysis_cache" where
  "cache_set c now ttl k a = c(k \<mapsto> (a, now + ttl))"

text \<open>
  Modelled from the spec: the handler checks the cache for an analysis keyed by track and
  artist; on a miss it calls the AI collaborator, stores the result and returns it.
\<close>

definition analyze_endpoint ::
  "(nat \<Rightarrow> string \<Rightarrow> ILyricsAnalysis) \<Rightarrow> nat \<Rightarrow> nat \<Rightarrow> analyze_body \<Rightarrow> server \<Rightarrow> ILyricsAnalysis \<times> server" where
  "analyze_endpoint ai ttl now req srv =
     (case cache_get (cache srv) now (cache_key req) of
        Some a \<Rightarrow> (a, srv)
      | None \<Rightarrow>
          (let a = ai (ai_calls srv) (lyrics' req) in
           (a, srv\<lparr>cache := cache_set (cache srv) now ttl (cache_key req) a,
                   ai_calls := Suc (ai_calls srv)\<rparr>)))"

text \<open>
  Modelled from the spec: the second request at time \<open>t\<^sub>2\<close> falls within the TTL of the
  cache entry that the first request, made at time \<open>t\<^sub>1\<close> on the server \<open>srv\<close>, stored (on
  a miss) or read (on a hit).
\<close>

definition within_ttl :: "server \<Rightarrow> nat \<Rightarrow> nat \<Rightarrow> analyze_body \<Rightarrow> nat \<Rightarrow> bool" where
  "within_ttl srv ttl t\<^sub>1 req t\<^sub>2 =
     (case cache_get (cache srv) t\<^sub>1 (cache_key req) of
        None \<Rightarrow> t\<^sub>2 < t\<^sub>1 + ttl
      | Some a \<Rightarrow> cache_get (cache srv) t\<^sub>2 (cache_key req) \<noteq> None)"

section \<open>Properties of the hook\<close>

lemma truthy_simps:
  "truthy None = False" "truthy (Some s) = (s \<noteq> [])"
  by (simp_all add: truthy_def)

lemma searchSongs_settle_isLoading:
  "isLoading (searchSongs_settle r h) = False"
  by (simp add: searchSongs_settle_def split: sum.split)

lemma getLyrics_settle_isLoading:
  "isLoading (getLyrics_settle r h) = False"
  by (simp add: getLyrics_settle_def split: sum.split)

lemma analyzeLyrics_settle_isLoading:
  "isLoading (analyzeLyrics_settle r h) = False"
  by (simp add: analyzeLyrics_settle_def split: sum.split)

lemma searchSongs_start_simps:
  "fst (searchSongs_start q h) = Search_request q"
  "snd (searchSongs_start q h) = h\<lparr>isLoading := True, error := None\<rparr>"
  by (simp_all add: searchSongs_start_def)

lemma getLyrics_start_simps:
  "fst (getLyrics_start s h) = Lyrics_request (artist s) (title s)"
  "snd (getLyrics_start s h) = h\<lparr>isLoading := True, error := None\<rparr>"
  by (simp_all add: getLyrics_start_def)

lemma analyzeLyrics_start_simps:
  "fst (analyzeLyrics_start s l h) = Analyze_request (title s) (artist s) l"
  "snd (analyzeLyrics_start s l h) = h\<lparr>isLoading := True, error := None\<rparr>"
  by (simp_all add: analyzeLyrics_start_def)

lemma array_map_suggestions:
  "array_map suggestion_callback (map Some items) = Inr (map toSong items)"
  by (induction items) (simp_all add: suggestion_callback_def)

lemma array_map_null:
  "None \<in> set items \<Longrightarrow> array_map suggestion_callback items = Inl (Error (cannot_read ''title''))"
proof (induction items)
  case Nil
  then show ?case by simp
next
  case (Cons x xs)
  then show ?case
    by (cases x) (auto simp: suggestion_callback_def)
qed

lemma array_map_no_null:
  "None \<notin> set items \<Longrightarrow> \<exists>ss. array_map suggestion_callback items = Inr ss"
proof (induction items)
  case Nil
  then show ?case by simp
next
  case (Cons x xs)
  then show ?case
    by (cases x) (auto simp: suggestion_callback_def)
qed

lemma searchSongs_settle_success:
  "searchSongs_settle (Response True st (Inr (Data (Some (map Some items)) e))) h =
     h\<lparr>songs := map toSong items, isLoading := False\<rparr>"
  by (simp add: searchSongs_settle_def searchSongs_try_def array_map_suggestions)

text \<open>
  C1. When a search response is 2xx and its body carries a suggestions array,
  \<open>searchSongs\<close> stores one song per suggestion, in order: the song at each index has
  the id \<open>title + "-" + artist\<close> of the suggestion at that index, its title, its artist,
  and its \<open>cover_url\<close> as \<open>coverUrl\<close>. (The suggestions are the objects \<open>items\<close>, each an
  \<open>ISuggestionItem\<close>; the array of the body is \<open>map Some items\<close>.)
\<close>

theorem searchSongs_maps_each_suggestion:
  "length (songs (searchSongs_settle (Response True st (Inr (Data (Some (map Some items)) e))) h))
     = length items \<and>
   (\<forall>i < length items.
      id' (songs (searchSongs_settle (Response True st (Inr (Data (Some (map Some items)) e))) h) ! i)
        = ISuggestionItem.title (items ! i) @ ''-'' @ ISuggestionItem.artist (items ! i) \<and>
      title (songs (searchSongs_settle (Response True st (Inr (Data (Some (map Some items)) e))) h) ! i)
        = ISuggestionItem.title (items ! i) \<and>
      artist (songs (searchSongs_settle (Response True st (Inr (Data (Some (map Some items)) e))) h) ! i)
        = ISuggestionItem.artist (items ! i) \<and>
      coverUrl (songs (searchSongs_settle (Response True st (Inr (Data (Some (map Some items)) e))) h) ! i)
        = cover_url (items ! i))"
  by (simp add: searchSongs_settle_success toSong_def)

text \<open>
  The spec's example: the suggestion \<open>{title: "Bohemian Rhapsody", artist: "Queen"}\<close>
  becomes the song with the id \<open>"Bohemian Rhapsody-Queen"\<close>.
\<close>

theorem searchSongs_maps_each_suggestion_witness:
  "songs (searchSongs_settle
     (Response True ''OK'' (Inr (Data (Some
        [Some \<lparr> ISuggestionItem.title = ''Bohemian Rhapsody'', ISuggestionItem.artist = ''Queen'',
           album = None, preview_url = None, cover_url = Some ''q.png'' \<rparr>]) None)))
     (snd (searchSongs_start ''Bohemian Rhapsody'' useLyricLens)))
   = [\<lparr> id' = ''Bohemian Rhapsody-Queen'', title = ''Bohemian Rhapsody'', artist = ''Queen'',
        coverUrl = Some ''q.png'' \<rparr>]"
proof -
  let ?items = "[\<lparr> ISuggestionItem.title = ''Bohemian Rhapsody'', ISuggestionItem.artist = ''Queen'',
           album = None, preview_url = None, cover_url = Some ''q.png'' \<rparr>]"
  let ?h = "snd (searchSongs_start ''Bohemian Rhapsody'' useLyricLens)"
  let ?ss = "songs (searchSongs_settle (Response True ''OK'' (Inr (Data (Some (map Some ?items)) None))) ?h)"
  from searchSongs_maps_each_suggestion [of "''OK''" ?items None ?h]
  have len: "length ?ss = 1"
    and fields: "id' (?ss ! 0) = ''Bohemian Rhapsody-Queen''" "title (?ss ! 0) = ''Bohemian Rhapsody''"
      "artist (?ss ! 0) = ''Queen''" "coverUrl (?ss ! 0) = Some ''q.png''"
    by simp_all
  from len obtain x where x: "?ss = [x]"
    by (cases ?ss) simp_all
  with fields show ?thesis
    by (cases x) simp
qed

text \<open>
  C4. Each of \<open>searchSongs\<close>, \<open>getLyrics\<close> and \<open>analyzeLyrics\<close> sets \<open>isLoading\<close> to
  true and \<open>error\<close> to null before its request, and leaves \<open>isLoading\<close> false when it
  ends, whatever the request settled to (success or failure).
\<close>

theorem operations_set_loading_and_error:
  "isLoading (snd (searchSongs_start q h)) \<and> error (snd (searchSongs_start q h)) = None \<and>
   \<not> isLoading (searchSongs_settle r\<^sub>1 h\<^sub>1) \<and>
   isLoading (snd (getLyrics_start s h)) \<and> error (snd (getLyrics_start s h)) = None \<and>
   \<not> isLoading (getLyrics_settle r\<^sub>2 h\<^sub>2) \<and>
   isLoading (snd (analyzeLyrics_start s l h)) \<and> error (snd (analyzeLyrics_start s l h)) = None \<and>
   \<not> isLoading (analyzeLyrics_settle r\<^sub>3 h\<^sub>3)"
  by (simp add: searchSongs_start_simps getLyrics_start_simps analyzeLyrics_start_simps
      searchSongs_settle_isLoading getLyrics_settle_isLoading analyzeLyrics_settle_isLoading)

lemma SongGrid_empty:
  "Song_card s \<notin> set (SongGrid [] loading msg)"
  by (simp add: SongGrid_def)

lemma SearchStatus_no_card:
  "Song_card s \<notin> set (SearchStatus loading err)"
  by (auto simp: SearchStatus_def split: option.splits if_splits)

lemma no_songs_no_card:
  "songs (search_hook p) = [] \<Longrightarrow> Song_card s \<notin> set (SearchPage p)"
  by (auto simp: SearchPage_def SearchStatus_no_card SongGrid_empty split: option.splits)

text \<open>Whether the body of \<open>try\<close> throws, and what, does not depend on the state.\<close>

lemma searchSongs_try_throws_in_any_state:
  "searchSongs_try r h = Inl e \<Longrightarrow> searchSongs_try r h' = Inl e"
  by (auto simp: searchSongs_try_def
      split: fetch_result.splits sum.splits search_data.splits option.splits if_splits)

lemma searchSongs_settle_thrown:
  "searchSongs_try r h = Inl e \<Longrightarrow> songs (searchSongs_settle r h) = []"
  by (simp add: searchSongs_settle_def)

lemma searchSongs_settle_no_array:
  "suggestions_of r = None \<Longrightarrow> songs (searchSongs_settle r h) = []"
  by (auto simp: searchSongs_settle_def searchSongs_try_def
      split: fetch_result.splits sum.splits search_data.splits option.splits if_splits)

text \<open>
  C9. Whenever a search fails (its \<open>try\<close> body throws: the request is rejected, the
  response is not 2xx, the body does not parse, or a property of \<open>null\<close> is read) or its
  parsed data has no suggestions array, \<open>searchSongs\<close> leaves \<open>songs\<close> empty, whatever
  it held before, and the page then renders no song card.
\<close>

theorem failed_search_empties_songs:
  "(\<exists>e. searchSongs_try r h = Inl e) \<or> suggestions_of r = None \<Longrightarrow>
   songs (searchSongs_settle r h) = [] \<and>
   (\<forall>s. Song_card s \<notin> set (SearchPage (handleSearch_settle r p)))"
proof -
  assume "(\<exists>e. searchSongs_try r h = Inl e) \<or> suggestions_of r = None"
  then have e: "songs (searchSongs_settle r h') = []" for h'
  proof
    assume "\<exists>e. searchSongs_try r h = Inl e"
    then obtain e where "searchSongs_try r h = Inl e" ..
    then have "searchSongs_try r h' = Inl e"
      by (rule searchSongs_try_throws_in_any_state)
    then show ?thesis
      by (rule searchSongs_settle_thrown)
  next
    assume "suggestions_of r = None"
    then show ?thesis
      by (rule searchSongs_settle_no_array)
  qed
  then have "songs (search_hook (handleSearch_settle r p)) = []"
    by (simp add: handleSearch_settle_def)
  with e show ?thesis
    by (simp add: no_songs_no_card)
qed

text \<open>
  A search answered by \<open>404 Not Found\<close> while the page still holds the song of an earlier
  search: the list is emptied and the page shows the error and the empty message. The same
  happens when the search is answered by \<open>{"suggestions": [null]}\<close>.
\<close>

theorem failed_search_empties_songs_witness:
  "suggestions_of (Response False ''Not Found'' (Inr Null_data)) = None \<and>
   songs (searchSongs_settle (Response False ''Not Found'' (Inr Null_data))
     (useLyricLens\<lparr>songs := [\<lparr> id' = ''a-b'', title = ''a'', artist = ''b'', coverUrl = None \<rparr>],
        isLoading := True\<rparr>))
   = [] \<and>
   SearchPage (handleSearch_settle (Response False ''Not Found'' (Inr Null_data))
     \<lparr> query = ''zzz'', selectedSong = None,
       search_hook = useLyricLens\<lparr>songs := [\<lparr> id' = ''a-b'', title = ''a'', artist = ''b'', coverUrl = None \<rparr>],
         isLoading := True\<rparr> \<rparr>)
   = [Page_title, Search_input, Error_text ''Error: Not Found'',
      Empty_message ''No songs found. Try another search term.''] \<and>
   searchSongs_try (Response True ''OK'' (Inr (Data (Some [None]) None)))
     (useLyricLens\<lparr>songs := [\<lparr> id' = ''a-b'', title = ''a'', artist = ''b'', coverUrl = None \<rparr>],
        isLoading := True\<rparr>)
   = Inl (Error (cannot_read ''title'')) \<and>
   songs (searchSongs_settle (Response True ''OK'' (Inr (Data (Some [None]) None)))
     (useLyricLens\<lparr>songs := [\<lparr> id' = ''a-b'', title = ''a'', artist = ''b'', coverUrl = None \<rparr>],
        isLoading := True\<rparr>))
   = []"
  using failed_search_empties_songs [of "Response False ''Not Found'' (Inr Null_data)"
      "useLyricLens\<lparr>songs := [\<lparr> id' = ''a-b'', title = ''a'', artist = ''b'', coverUrl = None \<rparr>],
        isLoading := True\<rparr>"
      "\<lparr> query = ''zzz'', selectedSong = None,
       search_hook = useLyricLens\<lparr>songs := [\<lparr> id' = ''a-b'', title = ''a'', artist = ''b'', coverUrl = None \<rparr>],
         isLoading := True\<rparr> \<rparr>"]
    failed_search_empties_songs [of "Response True ''OK'' (Inr (Data (Some [None]) None))"
      "useLyricLens\<lparr>songs := [\<lparr> id' = ''a-b'', title = ''a'', artist = ''b'', coverUrl = None \<rparr>],
        isLoading := True\<rparr>"]
  by (simp add: SearchPage_def SearchStatus_def SongGrid_def handleSearch_settle_def
      searchSongs_settle_def searchSongs_try_def useLyricLens_def truthy_def caught_def
      suggestion_callback_def)

text \<open>
  What \<open>searchSongs\<close> does with a parsed body that has a suggestions array: a \<open>null\<close>
  element makes the callback throw, and without one the songs are stored and \<open>error\<close> is
  not written.
\<close>

lemma searchSongs_try_null_element:
  "None \<in> set items \<Longrightarrow>
   searchSongs_try (Response True st (Inr (Data (Some items) err))) h
     = Inl (Error (cannot_read ''title''))"
  by (simp add: searchSongs_try_def array_map_null)

lemma searchSongs_settle_no_null_element:
  "None \<notin> set items \<Longrightarrow>
   error (searchSongs_settle (Response True st (Inr (Data (Some items) err))) h) = error h"
  using array_map_no_null [of items]
  by (auto simp: searchSongs_settle_def searchSongs_try_def)

text \<open>
  C7, as the code has it. Whatever the body of \<open>try\<close> throws is caught in the same
  operation, and the state the operation leaves depends on the thrown value only through
  the string stored in \<open>error\<close>: the message of the \<open>Error\<close>, or the operation's own
  fallback text when the thrown value is not an \<open>Error\<close>. The body throws when the
  request is rejected (the rejection itself), when the response is not 2xx (an \<open>Error\<close>
  with \<open>"Error: "\<close> and the status text), when the body does not parse (the rejection
  of \<open>json()\<close>), when a property of \<open>null\<close> is read (a \<open>TypeError\<close>): in \<open>searchSongs\<close>
  and \<open>getLyrics\<close> when the body is JSON \<open>null\<close>, and in \<open>searchSongs\<close> when the
  suggestions array has a \<open>null\<close> element. A body that parses and makes the operation
  throw nothing is not a failure for the code, whatever its shape: \<open>searchSongs\<close> then
  writes \<open>error\<close> only if the suggestions array is missing and the body has a truthy
  \<open>error\<close> field, and \<open>getLyrics\<close> and \<open>analyzeLyrics\<close> do not write \<open>error\<close> at all.
\<close>

theorem thrown_failures_become_error_text:
  "(searchSongs_try r\<^sub>1 h = Inl e \<longrightarrow>
      searchSongs_settle r\<^sub>1 h =
        h\<lparr>error := Some (caught ''An error occurred while searching for songs'' e), songs := [],
          isLoading := False\<rparr>) \<and>
   (getLyrics_try r\<^sub>2 h = Inl e \<longrightarrow>
      getLyrics_settle r\<^sub>2 h =
        h\<lparr>error := Some (caught ''An error occurred while fetching lyrics'' e),
          isLoading := False\<rparr>) \<and>
   (analyzeLyrics_try r\<^sub>3 h = Inl e \<longrightarrow>
      analyzeLyrics_settle r\<^sub>3 h =
        h\<lparr>error := Some (caught ''An error occurred while analyzing lyrics'' e),
          isLoading := False\<rparr>) \<and>
   caught fallback (Error m) = m \<and> caught fallback NonError = fallback \<and>
   searchSongs_try (Rejected e) h = Inl e \<and>
   searchSongs_try (Response False st b\<^sub>1) h = Inl (Error (''Error: '' @ st)) \<and>
   searchSongs_try (Response True st (Inl e)) h = Inl e \<and>
   searchSongs_try (Response True st (Inr Null_data)) h
     = Inl (Error (cannot_read ''suggestions'')) \<and>
   (None \<in> set items \<longrightarrow>
      searchSongs_try (Response True st (Inr (Data (Some items) err))) h
        = Inl (Error (cannot_read ''title''))) \<and>
   getLyrics_try (Rejected e) h = Inl e \<and>
   getLyrics_try (Response False st b\<^sub>2) h = Inl (Error (''Error: '' @ st)) \<and>
   getLyrics_try (Response True st (Inl e)) h = Inl e \<and>
   getLyrics_try (Response True st (Inr Null_lyrics)) h = Inl (Error (cannot_read ''lyrics'')) \<and>
   analyzeLyrics_try (Rejected e) h = Inl e \<and>
   analyzeLyrics_try (Response False st b\<^sub>3) h = Inl (Error (''Error: '' @ st)) \<and>
   analyzeLyrics_try (Response True st (Inl e)) h = Inl e \<and>
   error (searchSongs_settle (Response True st (Inr (Data None err))) h)
     = (if truthy err then err else error h) \<and>
   (None \<notin> set items \<longrightarrow>
      error (searchSongs_settle (Response True st (Inr (Data (Some items) err))) h) = error h) \<and>
   error (getLyrics_settle (Response True st (Inr (Lyrics_data l))) h) = error h \<and>
   error (analyzeLyrics_settle (Response True st (Inr d)) h) = error h"
proof -
  have thrown: "searchSongs_try r\<^sub>1 h = Inl e \<longrightarrow>
      searchSongs_settle r\<^sub>1 h =
        h\<lparr>error := Some (caught ''An error occurred while searching for songs'' e), songs := [],
          isLoading := False\<rparr>"
    "getLyrics_try r\<^sub>2 h = Inl e \<longrightarrow>
      getLyrics_settle r\<^sub>2 h =
        h\<lparr>error := Some (caught ''An error occurred while fetching lyrics'' e),
          isLoading := False\<rparr>"
    "analyzeLyrics_try r\<^sub>3 h = Inl e \<longrightarrow>
      analyzeLyrics_settle r\<^sub>3 h =
        h\<lparr>error := Some (caught ''An error occurred while analyzing lyrics'' e),
          isLoading := False\<rparr>"
    by (simp_all add: searchSongs_settle_def getLyrics_settle_def analyzeLyrics_settle_def)
  have throws: "searchSongs_try (Rejected e) h = Inl e"
    "searchSongs_try (Response False st b\<^sub>1) h = Inl (Error (''Error: '' @ st))"
    "searchSongs_try (Response True st (Inl e)) h = Inl e"
    "searchSongs_try (Response True st (Inr Null_data)) h = Inl (Error (cannot_read ''suggestions''))"
    "getLyrics_try (Rejected e) h = Inl e"
    "getLyrics_try (Response False st b\<^sub>2) h = Inl (Error (''Error: '' @ st))"
    "getLyrics_try (Response True st (Inl e)) h = Inl e"
    "getLyrics_try (Response True st (Inr Null_lyrics)) h = Inl (Error (cannot_read ''lyrics''))"
    "analyzeLyrics_try (Rejected e) h = Inl e"
    "analyzeLyrics_try (Response False st b\<^sub>3) h = Inl (Error (''Error: '' @ st))"
    "analyzeLyrics_try (Response True st (Inl e)) h = Inl e"
    by (simp_all add: searchSongs_try_def getLyrics_try_def analyzeLyrics_try_def)
  have quiet: "error (searchSongs_settle (Response True st (Inr (Data None err))) h)
       = (if truthy err then err else error h)"
    "error (getLyrics_settle (Response True st (Inr (Lyrics_data l))) h) = error h"
    "error (analyzeLyrics_settle (Response True st (Inr d)) h) = error h"
    by (simp_all add: searchSongs_settle_def searchSongs_try_def getLyrics_settle_def
        getLyrics_try_def analyzeLyrics_settle_def analyzeLyrics_try_def)
  have msg: "caught fallback (Error m) = m" "caught fallback NonError = fallback"
    by (simp_all add: caught_def)
  from thrown throws quiet msg show ?thesis
    using searchSongs_try_null_element [of items st err h]
      searchSongs_settle_no_null_element [of items st err h]
    by blast
qed

text \<open>
  A search answered by \<open>500 Internal Server Error\<close>, a lyrics request that the network
  fails, an analysis request whose \<open>json()\<close> rejects with a value that is not an
  \<open>Error\<close>, and a search answered by \<open>{"suggestions": [null]}\<close>.
\<close>

theorem thrown_failures_become_error_text_witness:
  "searchSongs_try (Response False ''Internal Server Error'' (Inr Null_data)) useLyricLens
     = Inl (Error ''Error: Internal Server Error'') \<and>
   searchSongs_settle (Response False ''Internal Server Error'' (Inr Null_data)) useLyricLens
     = useLyricLens\<lparr>error := Some ''Error: Internal Server Error''\<rparr> \<and>
   getLyrics_try (Rejected (Error ''Failed to fetch'')) useLyricLens
     = Inl (Error ''Failed to fetch'') \<and>
   getLyrics_settle (Rejected (Error ''Failed to fetch'')) useLyricLens
     = useLyricLens\<lparr>error := Some ''Failed to fetch''\<rparr> \<and>
   analyzeLyrics_try (Response True ''OK'' (Inl NonError)) useLyricLens = Inl NonError \<and>
   analyzeLyrics_settle (Response True ''OK'' (Inl NonError)) useLyricLens
     = useLyricLens\<lparr>error := Some ''An error occurred while analyzing lyrics''\<rparr> \<and>
   None \<in> set [None :: ISuggestionItem option] \<and>
   searchSongs_try (Response True ''OK'' (Inr (Data (Some [None]) None))) useLyricLens
     = Inl (Error (cannot_read ''title'')) \<and>
   searchSongs_settle (Response True ''OK'' (Inr (Data (Some [None]) None))) useLyricLens
     = useLyricLens\<lparr>error := Some (cannot_read ''title'')\<rparr>"
  using thrown_failures_become_error_text
    [of "Response False ''Internal Server Error'' (Inr Null_data)" useLyricLens
        "Error ''Error: Internal Server Error''"]
    thrown_failures_become_error_text
    [of _ useLyricLens "Error ''Failed to fetch''" "Rejected (Error ''Failed to fetch'')"]
    thrown_failures_become_error_text
    [of _ useLyricLens NonError _ "Response True ''OK'' (Inl NonError)"]
    thrown_failures_become_error_text
    [of "Response True ''OK'' (Inr (Data (Some [None]) None))" useLyricLens
        "Error (cannot_read ''title'')" _ _ _ _ _ _ "[None]" None]
  by (simp add: searchSongs_try_def getLyrics_try_def analyzeLyrics_try_def caught_def
      useLyricLens_def suggestion_callback_def)

text \<open>
  C7 as the spec states it fails on a response of unexpected shape. A 2xx search response
  whose body is an object with neither \<open>suggestions\<close> nor \<open>error\<close> leaves \<open>error\<close>
  null, and a 2xx analysis response whose body is not an analysis is stored as the
  analysis, with \<open>error\<close> null.
\<close>

theorem unexpected_shape_sets_no_error:
  "error (searchSongs_settle (Response True ''OK'' (Inr (Data None None)))
            (snd (searchSongs_start ''queen'' useLyricLens))) = None \<and>
   error (analyzeLyrics_settle (Response True ''OK'' (Inr Unexpected_shape))
            (snd (analyzeLyrics_start
                    \<lparr> id' = ''a-b'', title = ''a'', artist = ''b'', coverUrl = None \<rparr> ''la la''
                    useLyricLens))) = None \<and>
   lyricsAnalysis (analyzeLyrics_settle (Response True ''OK'' (Inr Unexpected_shape))
            (snd (analyzeLyrics_start
                    \<lparr> id' = ''a-b'', title = ''a'', artist = ''b'', coverUrl = None \<rparr> ''la la''
                    useLyricLens))) = Unexpected_shape"
  by (simp add: searchSongs_settle_def searchSongs_try_def searchSongs_start_def
      analyzeLyrics_settle_def analyzeLyrics_try_def analyzeLyrics_start_def
      useLyricLens_def truthy_def)

section \<open>Properties of the page\<close>

text \<open>
  C10. Submitting a query whose trimmed form is empty sends no request and changes
  nothing but the stored query: \<open>songs\<close>, \<open>selectedSong\<close>, \<open>isLoading\<close> and \<open>error\<close>
  are as before.
\<close>

theorem blank_search_only_stores_query:
  "trim q = [] \<Longrightarrow>
   handleSearch_start q p = (None, p\<lparr>query := q\<rparr>) \<and>
   songs (search_hook (snd (handleSearch_start q p))) = songs (search_hook p) \<and>
   selectedSong (snd (handleSearch_start q p)) = selectedSong p \<and>
   isLoading (search_hook (snd (handleSearch_start q p))) = isLoading (search_hook p) \<and>
   error (search_hook (snd (handleSearch_start q p))) = error (search_hook p) \<and>
   query (snd (handleSearch_start q p)) = q"
  by (simp add: handleSearch_start_def)

text \<open>A query of a space, a tab and a space, submitted while a song is selected.\<close>

theorem blank_search_only_stores_query_witness:
  "trim [CHR 0x20, CHR 0x09, CHR 0x20] = [] \<and>
   handleSearch_start [CHR 0x20, CHR 0x09, CHR 0x20]
     (handleSongClick \<lparr> id' = ''a-b'', title = ''a'', artist = ''b'', coverUrl = None \<rparr> initial_page)
   = (None,
      \<lparr> query = [CHR 0x20, CHR 0x09, CHR 0x20],
        selectedSong = Some \<lparr> id' = ''a-b'', title = ''a'', artist = ''b'', coverUrl = None \<rparr>,
        search_hook = useLyricLens \<rparr>)"
  using blank_search_only_stores_query [of "[CHR 0x20, CHR 0x09, CHR 0x20]"
      "handleSongClick \<lparr> id' = ''a-b'', title = ''a'', artist = ''b'', coverUrl = None \<rparr> initial_page"]
  by (simp add: trim_def js_whitespace_def handleSongClick_def initial_page_def)

text \<open>
  C5. When the query is non-empty, nothing is loading, there is no error, no song is
  selected and the result list is empty, the page shows the heading
  \<open>No results found for "query"\<close> and renders no song card. (The page treats an
  \<open>error\<close> that is the empty string as no error.)
\<close>

theorem empty_result_shows_no_results_found:
  "query p \<noteq> [] \<Longrightarrow> \<not> isLoading (search_hook p) \<Longrightarrow> \<not> truthy (error (search_hook p)) \<Longrightarrow>
   selectedSong p = None \<Longrightarrow> songs (search_hook p) = [] \<Longrightarrow>
   Results_heading (''No results found for '' @ [CHR 0x22] @ query p @ [CHR 0x22])
     \<in> set (SearchPage p) \<and>
   (\<forall>s. Song_card s \<notin> set (SearchPage p))"
  by (simp add: SearchPage_def SearchStatus_def SongGrid_def results_heading_def)

text \<open>The search for \<open>zzz\<close> from the initial page, answered by an empty suggestions array.\<close>

theorem empty_result_shows_no_results_found_witness:
  "query (handleSearch_settle (Response True ''OK'' (Inr (Data (Some []) None)))
            (snd (handleSearch_start ''zzz'' initial_page))) = ''zzz'' \<and>
   search_hook (handleSearch_settle (Response True ''OK'' (Inr (Data (Some []) None)))
            (snd (handleSearch_start ''zzz'' initial_page))) = useLyricLens \<and>
   selectedSong (handleSearch_settle (Response True ''OK'' (Inr (Data (Some []) None)))
            (snd (handleSearch_start ''zzz'' initial_page))) = None \<and>
   SearchPage (handleSearch_settle (Response True ''OK'' (Inr (Data (Some []) None)))
            (snd (handleSearch_start ''zzz'' initial_page)))
   = [Page_title, Search_input,
      Results_heading (''No results found for '' @ [CHR 0x22] @ ''zzz'' @ [CHR 0x22]),
      Empty_message ''No songs found. Try another search term.'']"
proof -
  let ?p = "handleSearch_settle (Response True ''OK'' (Inr (Data (Some []) None)))
            (snd (handleSearch_start ''zzz'' initial_page))"
  have p: "?p = \<lparr> query = ''zzz'', selectedSong = None, search_hook = useLyricLens \<rparr>"
    by (simp add: handleSearch_settle_def handleSearch_start_def initial_page_def trim_def
        js_whitespace_def searchSongs_start_def searchSongs_settle_def searchSongs_try_def
        useLyricLens_def)
  have "Results_heading (''No results found for '' @ [CHR 0x22] @ query ?p @ [CHR 0x22])
          \<in> set (SearchPage ?p) \<and> (\<forall>s. Song_card s \<notin> set (SearchPage ?p))"
    by (rule empty_result_shows_no_results_found) (simp_all add: p useLyricLens_def truthy_def)
  then show ?thesis
    by (simp add: p SearchPage_def SearchStatus_def SongGrid_def results_heading_def
        useLyricLens_def truthy_def)
qed

text \<open>
  C6, as the code has it. The view state is \<open>browsing\<close> while \<open>selectedSong\<close> is null and
  \<open>viewingSong\<close> otherwise. Selecting a song leads to \<open>viewingSong\<close>; the back action
  leads to \<open>browsing\<close>; submitting a search whose trimmed query is not empty also leads to
  \<open>browsing\<close>, from either state; a blank search and the settling of a search request
  leave the view state as it is.
\<close>

theorem view_transitions:
  "view_of (handleSongClick s p) = viewingSong \<and>
   view_of (onBack p) = browsing \<and>
   view_of (snd (handleSearch_start q p)) = (if trim q = [] then view_of p else browsing) \<and>
   view_of (handleSearch_settle r p) = view_of p"
  by (simp add: view_of_def handleSongClick_def onBack_def handleSearch_start_def
      handleSearch_settle_def searchSongs_start_def)

text \<open>
  C6 as the spec states it fails: a search is a third action that changes the view state.
  After the search \<open>queen\<close> has brought one song and the user has selected it, the search
  \<open>abba\<close> takes the page from \<open>viewingSong\<close> back to \<open>browsing\<close>.
\<close>

theorem search_leaves_song_view:
  "view_of
     (handleSongClick
        \<lparr> id' = ''Bohemian Rhapsody-Queen'', title = ''Bohemian Rhapsody'', artist = ''Queen'',
          coverUrl = None \<rparr>
        (handleSearch_settle
           (Response True ''OK'' (Inr (Data (Some
              [Some \<lparr> ISuggestionItem.title = ''Bohemian Rhapsody'', ISuggestionItem.artist = ''Queen'',
                 album = None, preview_url = None, cover_url = None \<rparr>]) None)))
           (snd (handleSearch_start ''queen'' initial_page))))
   = viewingSong \<and>
   view_of (snd (handleSearch_start ''abba''
     (handleSongClick
        \<lparr> id' = ''Bohemian Rhapsody-Queen'', title = ''Bohemian Rhapsody'', artist = ''Queen'',
          coverUrl = None \<rparr>
        (handleSearch_settle
           (Response True ''OK'' (Inr (Data (Some
              [Some \<lparr> ISuggestionItem.title = ''Bohemian Rhapsody'', ISuggestionItem.artist = ''Queen'',
                 album = None, preview_url = None, cover_url = None \<rparr>]) None)))
           (snd (handleSearch_start ''queen'' initial_page))))))
   = browsing"
  by (simp add: view_of_def handleSongClick_def handleSearch_start_def trim_def js_whitespace_def
      searchSongs_start_def)

section \<open>Properties of the component \<open>Lyrics\<close>\<close>

lemma getLyrics_try_failed:
  "fetch_failed r \<Longrightarrow> \<exists>e. getLyrics_try r h = Inl e"
  by (cases r) (simp_all add: getLyrics_try_def)

lemma getLyrics_settle_failed:
  "fetch_failed r \<Longrightarrow>
   lyrics (getLyrics_settle r h) = lyrics h \<and> error (getLyrics_settle r h) \<noteq> None"
  using getLyrics_try_failed [of r h] by (auto simp: getLyrics_settle_def)

lemma analyzeLyrics_settle_lyrics:
  "lyrics (analyzeLyrics_settle r h) = lyrics h"
  by (auto simp: analyzeLyrics_settle_def analyzeLyrics_try_def
      split: fetch_result.splits sum.splits)

lemma mount_eq:
  "mount s =
     \<lparr> song = s,
       lyrics_hook = useLyricLens\<lparr>isLoading := True, error := None\<rparr>,
       isLyricsLoading = True, isAnalysisLoading = False,
       sent = [Lyrics_request (artist s) (title s)] \<rparr>"
  by (simp add: mount_def fetchLyrics_def fetchAnalysis_def getLyrics_start_def useLyricLens_def)

lemma mount_inv: "lyrics_inv (mount s)"
  by (simp add: mount_eq lyrics_inv_def useLyricLens_def)

lemma fetchAnalysis_simps:
  "song (fetchAnalysis c) = song c"
  "lyrics (lyrics_hook (fetchAnalysis c)) = lyrics (lyrics_hook c)"
  "isLyricsLoading (fetchAnalysis c) = isLyricsLoading c"
  "sent (fetchAnalysis c) =
     sent c @ (case lyrics (lyrics_hook c) of
                 None \<Rightarrow> []
               | Some l \<Rightarrow> if l \<noteq> [] then [Analyze_request (title (song c)) (artist (song c)) l] else [])"
  by (simp_all add: fetchAnalysis_def analyzeLyrics_start_def split: option.split)

lemma lyrics_settled_inv:
  assumes "lyrics_inv c" "isLyricsLoading c"
  shows "lyrics_inv (lyrics_settled r c)"
proof -
  from assms have l: "lyrics (lyrics_hook c) = None"
    and s: "sent c = [Lyrics_request (artist (song c)) (title (song c))]"
    by (simp_all add: lyrics_inv_def)
  show ?thesis
    by (simp add: lyrics_settled_def Let_def lyrics_inv_def fetchAnalysis_simps l s
        split: option.split)
qed

lemma analysis_settled_inv:
  "lyrics_inv c \<Longrightarrow> lyrics_inv (analysis_settled r c)"
  by (simp add: lyrics_inv_def analysis_settled_def analyzeLyrics_settle_lyrics split: option.split)

lemma deliver_inv:
  "deliver e c = Some c' \<Longrightarrow> lyrics_inv c \<Longrightarrow> lyrics_inv c'"
  by (cases e) (auto simp: lyrics_settled_inv analysis_settled_inv split: if_splits)

lemma run_inv:
  "run es c = Some c' \<Longrightarrow> lyrics_inv c \<Longrightarrow> lyrics_inv c'"
proof (induction es arbitrary: c)
  case Nil
  then show ?case by simp
next
  case (Cons e es)
  then show ?case
    by (auto split: option.splits dest: deliver_inv)
qed

text \<open>With no request in flight nothing more can happen to the instance.\<close>

lemma run_idle:
  "\<not> isLyricsLoading c \<Longrightarrow> \<not> isAnalysisLoading c \<Longrightarrow> run es c = Some c' \<Longrightarrow> c' = c"
proof (cases es)
  case Nil
  assume "run es c = Some c'"
  with Nil show ?thesis by simp
next
  case (Cons e es')
  assume "\<not> isLyricsLoading c" "\<not> isAnalysisLoading c" "run es c = Some c'"
  with Cons show ?thesis by (cases e) simp_all
qed

lemma lyrics_settled_failed:
  assumes "fetch_failed r"
  shows "lyrics_settled r (mount s) =
     (mount s)\<lparr>lyrics_hook := getLyrics_settle r (lyrics_hook (mount s)), isLyricsLoading := False\<rparr>"
  using getLyrics_settle_failed [OF assms, of "lyrics_hook (mount s)"]
  by (simp add: lyrics_settled_def Let_def)

text \<open>
  While a song is selected the page renders the \<open>Lyrics\<close> panel of that song and no song
  card, so no second selection can reach a mounted instance.
\<close>

lemma selection_renders_lyrics_only:
  "selectedSong p = Some s \<Longrightarrow>
   Lyrics_panel s \<in> set (SearchPage p) \<and> (\<forall>s'. Song_card s' \<notin> set (SearchPage p))"
  by (auto simp: SearchPage_def SearchStatus_no_card)

text \<open>
  C2. When the lyrics fetch of a selected song fails (the request is rejected, or the
  response is not 2xx), \<open>getLyrics\<close> leaves a string in \<open>error\<close>, and in every state
  the instance can reach afterwards \<open>error\<close> is still set and no analysis request has
  been sent.
\<close>

theorem failed_lyrics_no_analysis:
  assumes "fetch_failed r" and "run (Lyrics_settled r # es) (mount s) = Some c"
  shows "error (getLyrics_settle r h) \<noteq> None \<and> error (lyrics_hook c) \<noteq> None \<and>
         filter is_analyze_request (sent c) = []"
proof -
  let ?c1 = "lyrics_settled r (mount s)"
  have c1: "?c1 = (mount s)\<lparr>lyrics_hook := getLyrics_settle r (lyrics_hook (mount s)), isLyricsLoading := False\<rparr>"
    using assms(1) by (rule lyrics_settled_failed)
  have "run es ?c1 = Some c"
    using assms(2) by (simp add: mount_eq)
  moreover have "\<not> isLyricsLoading ?c1" "\<not> isAnalysisLoading ?c1"
    by (simp_all add: c1) (simp add: mount_eq)
  ultimately have "c = ?c1"
    using run_idle by blast
  then show ?thesis
    using getLyrics_settle_failed [OF assms(1)]
    by (simp add: c1) (simp add: mount_eq)
qed

text \<open>A lyrics request answered by \<open>404 Not Found\<close>.\<close>

theorem failed_lyrics_no_analysis_witness:
  "fetch_failed (Response False ''Not Found'' (Inr Null_lyrics) :: lyrics_data fetch_result) \<and>
   run [Lyrics_settled (Response False ''Not Found'' (Inr Null_lyrics))]
       (mount \<lparr> id' = ''a-b'', title = ''a'', artist = ''b'', coverUrl = None \<rparr>)
   = Some \<lparr> song = \<lparr> id' = ''a-b'', title = ''a'', artist = ''b'', coverUrl = None \<rparr>,
            lyrics_hook = \<lparr> songs = [], lyrics = None, lyricsAnalysis = No_analysis,
              isLoading = False, error = Some ''Error: Not Found'' \<rparr>,
            isLyricsLoading = False, isAnalysisLoading = False,
            sent = [Lyrics_request ''b'' ''a''] \<rparr> \<and>
   filter is_analyze_request [Lyrics_request ''b'' ''a''] = []"
proof -
  let ?r = "Response False ''Not Found'' (Inr Null_lyrics) :: lyrics_data fetch_result"
  let ?s = "\<lparr> id' = ''a-b'', title = ''a'', artist = ''b'', coverUrl = None \<rparr>"
  let ?c = "\<lparr> song = ?s,
            lyrics_hook = \<lparr> songs = [], lyrics = None, lyricsAnalysis = No_analysis,
              isLoading = False, error = Some ''Error: Not Found'' \<rparr>,
            isLyricsLoading = False, isAnalysisLoading = False,
            sent = [Lyrics_request ''b'' ''a''] \<rparr>"
  have f: "fetch_failed ?r" by simp
  have r: "run [Lyrics_settled ?r] (mount ?s) = Some ?c"
    by (simp add: mount_eq lyrics_settled_def getLyrics_settle_def getLyrics_try_def
        caught_def useLyricLens_def)
  from failed_lyrics_no_analysis [OF f r] f r show ?thesis
    by simp
qed

text \<open>
  C3, as the code has it. In every state a mounted instance can reach, exactly one lyrics
  request has been sent; exactly one analysis request has been sent if the fetched
  \<open>lyrics\<close> is a non-empty string, and none if it is null or the empty string.
\<close>

theorem one_fetch_one_analysis:
  "run es (mount s) = Some c \<Longrightarrow>
   length (filter is_lyrics_request (sent c)) = 1 \<and>
   length (filter is_analyze_request (sent c)) = (if truthy (lyrics (lyrics_hook c)) then 1 else 0)"
proof -
  assume "run es (mount s) = Some c"
  then have "lyrics_inv c"
    using mount_inv by (rule run_inv)
  then show ?thesis
    by (auto simp: lyrics_inv_def truthy_def split: option.splits)
qed

text \<open>A selection whose lyrics and analysis both arrive.\<close>

theorem one_fetch_one_analysis_witness:
  "run [Lyrics_settled (Response True ''OK'' (Inr (Lyrics_data (Some ''Is this the real life?'')))),
        Analysis_settled (Response True ''OK''
          (Inr (Analysis \<lparr> summary = ''A confession.'', countries_mentioned = [] \<rparr>)))]
       (mount \<lparr> id' = ''Bohemian Rhapsody-Queen'', title = ''Bohemian Rhapsody'', artist = ''Queen'',
                coverUrl = None \<rparr>)
   = Some \<lparr> song = \<lparr> id' = ''Bohemian Rhapsody-Queen'', title = ''Bohemian Rhapsody'',
                      artist = ''Queen'', coverUrl = None \<rparr>,
            lyrics_hook = \<lparr> songs = [], lyrics = Some ''Is this the real life?'',
              lyricsAnalysis = Analysis \<lparr> summary = ''A confession.'', countries_mentioned = [] \<rparr>,
              isLoading = False, error = None \<rparr>,
            isLyricsLoading = False, isAnalysisLoading = False,
            sent = [Lyrics_request ''Queen'' ''Bohemian Rhapsody'',
                    Analyze_request ''Bohemian Rhapsody'' ''Queen'' ''Is this the real life?''] \<rparr> \<and>
   length (filter is_lyrics_request
     [Lyrics_request ''Queen'' ''Bohemian Rhapsody'',
      Analyze_request ''Bohemian Rhapsody'' ''Queen'' ''Is this the real life?'']) = 1 \<and>
   length (filter is_analyze_request
     [Lyrics_request ''Queen'' ''Bohemian Rhapsody'',
      Analyze_request ''Bohemian Rhapsody'' ''Queen'' ''Is this the real life?'']) = 1"
proof -
  let ?s = "\<lparr> id' = ''Bohemian Rhapsody-Queen'', title = ''Bohemian Rhapsody'', artist = ''Queen'',
                coverUrl = None \<rparr>"
  let ?es = "[Lyrics_settled (Response True ''OK'' (Inr (Lyrics_data (Some ''Is this the real life?'')))),
        Analysis_settled (Response True ''OK''
          (Inr (Analysis \<lparr> summary = ''A confession.'', countries_mentioned = [] \<rparr>)))]"
  let ?c = "\<lparr> song = ?s,
            lyrics_hook = \<lparr> songs = [], lyrics = Some ''Is this the real life?'',
              lyricsAnalysis = Analysis \<lparr> summary = ''A confession.'', countries_mentioned = [] \<rparr>,
              isLoading = False, error = None \<rparr>,
            isLyricsLoading = False, isAnalysisLoading = False,
            sent = [Lyrics_request ''Queen'' ''Bohemian Rhapsody'',
                    Analyze_request ''Bohemian Rhapsody'' ''Queen'' ''Is this the real life?''] \<rparr>"
  have r: "run ?es (mount ?s) = Some ?c"
    by (simp add: mount_eq lyrics_settled_def analysis_settled_def fetchAnalysis_def
        getLyrics_settle_def getLyrics_try_def analyzeLyrics_start_def analyzeLyrics_settle_def
        analyzeLyrics_try_def useLyricLens_def)
  from one_fetch_one_analysis [OF r] r show ?thesis
    by simp
qed

text \<open>
  C3 as the spec states it fails when the lyrics that arrive are the empty string: the
  fetched value is not null, the lyrics request has settled without an error, and yet
  no analysis request has been sent and none is in flight.
\<close>

theorem empty_lyrics_no_analysis:
  "run [Lyrics_settled (Response True ''OK'' (Inr (Lyrics_data (Some []))))]
       (mount \<lparr> id' = ''4:33-John Cage'', title = ''4:33'', artist = ''John Cage'', coverUrl = None \<rparr>)
   = Some (lyrics_settled (Response True ''OK'' (Inr (Lyrics_data (Some []))))
       (mount \<lparr> id' = ''4:33-John Cage'', title = ''4:33'', artist = ''John Cage'', coverUrl = None \<rparr>)) \<and>
   lyrics (lyrics_hook (lyrics_settled (Response True ''OK'' (Inr (Lyrics_data (Some []))))
       (mount \<lparr> id' = ''4:33-John Cage'', title = ''4:33'', artist = ''John Cage'', coverUrl = None \<rparr>)))
     = Some [] \<and>
   error (lyrics_hook (lyrics_settled (Response True ''OK'' (Inr (Lyrics_data (Some []))))
       (mount \<lparr> id' = ''4:33-John Cage'', title = ''4:33'', artist = ''John Cage'', coverUrl = None \<rparr>)))
     = None \<and>
   sent (lyrics_settled (Response True ''OK'' (Inr (Lyrics_data (Some []))))
       (mount \<lparr> id' = ''4:33-John Cage'', title = ''4:33'', artist = ''John Cage'', coverUrl = None \<rparr>))
     = [Lyrics_request ''John Cage'' ''4:33''] \<and>
   \<not> isAnalysisLoading (lyrics_settled (Response True ''OK'' (Inr (Lyrics_data (Some []))))
       (mount \<lparr> id' = ''4:33-John Cage'', title = ''4:33'', artist = ''John Cage'', coverUrl = None \<rparr>)) \<and>
   \<not> isLyricsLoading (lyrics_settled (Response True ''OK'' (Inr (Lyrics_data (Some []))))
       (mount \<lparr> id' = ''4:33-John Cage'', title = ''4:33'', artist = ''John Cage'', coverUrl = None \<rparr>))"
  by (simp add: mount_eq lyrics_settled_def fetchAnalysis_def getLyrics_settle_def
      getLyrics_try_def useLyricLens_def)

section \<open>Properties of the analyze endpoint\<close>

text \<open>
  C8. If a request to the analyze endpoint is followed by one with the same track name,
  artist name and lyrics within the TTL of the cache entry of that track and artist, the
  second request returns the result of the first and leaves the server as it was: the AI
  collaborator is not invoked again.
\<close>

theorem second_analyze_is_cache_hit:
  assumes "analyze_endpoint ai ttl t\<^sub>1 req srv = (a, srv')"
    and "within_ttl srv ttl t\<^sub>1 req t\<^sub>2"
  shows "analyze_endpoint ai ttl t\<^sub>2 req srv' = (a, srv') \<and>
         ai_calls (snd (analyze_endpoint ai ttl t\<^sub>2 req srv')) = ai_calls srv'"
proof (cases "cache_get (cache srv) t\<^sub>1 (cache_key req)")
  case None
  with assms have "srv' = srv\<lparr>cache := cache_set (cache srv) t\<^sub>1 ttl (cache_key req) a,
      ai_calls := Suc (ai_calls srv)\<rparr>" and "t\<^sub>2 < t\<^sub>1 + ttl"
    by (auto simp: analyze_endpoint_def within_ttl_def Let_def)
  then have "cache_get (cache srv') t\<^sub>2 (cache_key req) = Some a"
    by (simp add: cache_get_def cache_set_def)
  then show ?thesis
    by (simp add: analyze_endpoint_def)
next
  case (Some a')
  with assms have "srv' = srv" and "a = a'"
    by (simp_all add: analyze_endpoint_def)
  moreover from Some assms(2) have "cache_get (cache srv) t\<^sub>2 (cache_key req) = Some a'"
    by (auto simp: within_ttl_def cache_get_def split: option.splits if_splits)
  ultimately show ?thesis
    by (simp add: analyze_endpoint_def)
qed

text \<open>
  A first request at time 100 on an empty cache, with a TTL of 3600, and the same request
  at time 200. The collaborator here answers every invocation differently (its summary
  grows with the invocation number), so only the cache makes the two results equal.
\<close>

theorem second_analyze_is_cache_hit_witness:
  "analyze_endpoint (\<lambda>n l. \<lparr> summary = replicate (Suc n) (CHR ''x''), countries_mentioned = [] \<rparr>)
     3600 100 \<lparr> track_name = ''t'', artist_name = ''a'', lyrics' = ''la'' \<rparr>
     \<lparr> cache = Map.empty, ai_calls = 0 \<rparr>
   = (\<lparr> summary = ''x'', countries_mentioned = [] \<rparr>,
      \<lparr> cache = [(''t'', ''a'') \<mapsto> (\<lparr> summary = ''x'', countries_mentioned = [] \<rparr>, 3700)],
        ai_calls = 1 \<rparr>) \<and>
   within_ttl \<lparr> cache = Map.empty, ai_calls = 0 \<rparr> 3600 100
     \<lparr> track_name = ''t'', artist_name = ''a'', lyrics' = ''la'' \<rparr> 200 \<and>
   analyze_endpoint (\<lambda>n l. \<lparr> summary = replicate (Suc n) (CHR ''x''), countries_mentioned = [] \<rparr>)
     3600 200 \<lparr> track_name = ''t'', artist_name = ''a'', lyrics' = ''la'' \<rparr>
     \<lparr> cache = [(''t'', ''a'') \<mapsto> (\<lparr> summary = ''x'', countries_mentioned = [] \<rparr>, 3700)],
       ai_calls = 1 \<rparr>
   = (\<lparr> summary = ''x'', countries_mentioned = [] \<rparr>,
      \<lparr> cache = [(''t'', ''a'') \<mapsto> (\<lparr> summary = ''x'', countries_mentioned = [] \<rparr>, 3700)],
        ai_calls = 1 \<rparr>)"
proof -
  let ?ai = "\<lambda>(n::nat) (l::string). \<lparr> summary = replicate (Suc n) (CHR ''x''), countries_mentioned = [] \<rparr>"
  let ?req = "\<lparr> track_name = ''t'', artist_name = ''a'', lyrics' = ''la'' \<rparr>"
  let ?a = "\<lparr> summary = ''x'', countries_mentioned = [] \<rparr>"
  let ?srv = "\<lparr> cache = Map.empty, ai_calls = 0 \<rparr>"
  let ?srv' = "\<lparr> cache = [(''t'', ''a'') \<mapsto> (?a, 3700)], ai_calls = 1 \<rparr>"
  have first: "analyze_endpoint ?ai 3600 100 ?req ?srv = (?a, ?srv')"
    by (simp add: analyze_endpoint_def cache_get_def cache_set_def cache_key_def Let_def)
  have within: "within_ttl ?srv 3600 100 ?req 200"
    by (simp add: within_ttl_def cache_get_def)
  from second_analyze_is_cache_hit [OF first within] first within show ?thesis
    by simp
qed

end
